theory Spec2Isabelle
  imports Main "HOL-Library.Multiset"
begin

section \<open>Medical appointments dashboard: cleaning pipeline and chart callback\<close>

text \<open>
  The program (\<^verbatim>\<open>project.py\<close>) is a script in two parts. Lines 33 to 52 clean a table
  of appointment records with pandas and derive three columns; lines 172 to 231 are the
  callback \<^verbatim>\<open>update_charts\<close>, which filters the cleaned table by neighbourhood and age
  range and builds six plotly figures.

  The embedding keeps the column names of the source. A data frame is the list of its
  rows, in row order. Integer columns are unbounded integers. Text is a list of 8-bit
  characters, so the model covers ASCII text: whitespace is the ASCII whitespace that
  Python's \<^verbatim>\<open>str.strip\<close> removes. Cells are never missing on input (the source's own
  data overview records that the table has no missing values).
\<close>

subsection \<open>Timestamps\<close>

text \<open>
  A pandas timestamp is a count of nanoseconds since 1970-01-01 00:00:00, and the
  difference of two timestamps is a count of nanoseconds too. The model uses unbounded
  integers for both: it covers the timestamps whose differences fit the 64-bit
  representation, which is some 292 years.
\<close>

type_synonym Timestamp = int
type_synonym Timedelta = int

definition ns_per_second :: int where
  "ns_per_second = 1000000000"

definition ns_per_day :: int where
  "ns_per_day = 86400 * ns_per_second"

text \<open>\<^verbatim>\<open>Timedelta.days\<close>: the whole days of a difference, rounded towards minus infinity
  (minus 18 hours is \<^verbatim>\<open>-1 days +06:00:00\<close>, whose \<^verbatim>\<open>days\<close> is -1).\<close>

definition dt_days :: "Timedelta \<Rightarrow> int" where
  "dt_days td = td div ns_per_day"

text \<open>The calendar date of a timestamp, as a day number (days since 1970-01-01).\<close>

definition dt_date :: "Timestamp \<Rightarrow> int" where
  "dt_date ts = ts div ns_per_day"

definition weekday_names :: "string list" where
  "weekday_names =
     [''Monday'', ''Tuesday'', ''Wednesday'', ''Thursday'', ''Friday'', ''Saturday'', ''Sunday'']"

text \<open>\<^verbatim>\<open>dt.day_name()\<close>: day 0 (1970-01-01) was a Thursday, index 3 counting from Monday.\<close>

definition day_name :: "Timestamp \<Rightarrow> string" where
  "day_name ts = weekday_names ! nat ((dt_date ts + 3) mod 7)"

subsection \<open>Reading a timestamp from text\<close>

text \<open>
  \<^verbatim>\<open>pd.to_datetime\<close> belongs to pandas, so the cleaning function below takes the
  reader of one cell as a parameter, and its general theorems hold for every reader.
  The concrete examples use \<open>to_datetime\<close>, which reads the ISO 8601 forms of the data
  set, \<^verbatim>\<open>2016-04-29T18:38:08Z\<close>, and of the specification's examples, \<^verbatim>\<open>2016-05-10\<close>
  (midnight): a date \<^verbatim>\<open>YYYY-MM-DD\<close>, then optionally \<^verbatim>\<open>T\<close> or a blank and a time
  \<^verbatim>\<open>HH:MM:SS\<close>, then optionally \<^verbatim>\<open>Z\<close>. Any other text is not read.
\<close>

definition digit :: "char \<Rightarrow> int option" where
  "digit c =
     (let n = (of_char c :: nat)
      in if 48 \<le> n \<and> n \<le> 57 then Some (int n - 48) else None)"

fun number :: "string \<Rightarrow> int option" where
  "number [] = None"
| "number cs =
     foldl (\<lambda>acc c. case (acc, digit c) of (Some a, Some d) \<Rightarrow> Some (10 * a + d) | _ \<Rightarrow> None)
       (Some 0) cs"

definition is_leap :: "int \<Rightarrow> bool" where
  "is_leap y = (y mod 4 = 0 \<and> (y mod 400 = 0 \<or> y mod 100 \<noteq> 0))"

definition days_in_month :: "int \<Rightarrow> int \<Rightarrow> int" where
  "days_in_month y m =
     (if m = 2 then (if is_leap y then 29 else 28)
      else if m = 4 \<or> m = 6 \<or> m = 9 \<or> m = 11 then 30 else 31)"

text \<open>Day number of a date of the proleptic Gregorian calendar (days since 1970-01-01).\<close>

definition days_from_civil :: "int \<Rightarrow> int \<Rightarrow> int \<Rightarrow> int" where
  "days_from_civil y m d =
     (let y' = (if m \<le> 2 then y - 1 else y);
          era = y' div 400;
          yoe = y' - era * 400;
          doy = (153 * (if m > 2 then m - 3 else m + 9) + 2) div 5 + d - 1;
          doe = yoe * 365 + yoe div 4 - yoe div 100 + doy
      in era * 146097 + doe - 719468)"

definition read_date :: "string \<Rightarrow> int option" where
  "read_date s =
     (if length s = 10 \<and> s ! 4 = CHR ''-'' \<and> s ! 7 = CHR ''-'' then
        (case (number (take 4 s), number (take 2 (drop 5 s)), number (drop 8 s)) of
           (Some y, Some m, Some d) \<Rightarrow>
             if 1 \<le> m \<and> m \<le> 12 \<and> 1 \<le> d \<and> d \<le> days_in_month y m
             then Some (days_from_civil y m d) else None
         | _ \<Rightarrow> None)
      else None)"

definition read_time :: "string \<Rightarrow> int option" where
  "read_time s =
     (if length s = 8 \<and> s ! 2 = CHR '':'' \<and> s ! 5 = CHR '':'' then
        (case (number (take 2 s), number (take 2 (drop 3 s)), number (drop 6 s)) of
           (Some h, Some m, Some sec) \<Rightarrow>
             if h < 24 \<and> m < 60 \<and> sec < 60 then Some (h * 3600 + m * 60 + sec) else None
         | _ \<Rightarrow> None)
      else None)"

definition to_datetime :: "string \<Rightarrow> Timestamp option" where
  "to_datetime s =
     (case read_date (take 10 s) of
        None \<Rightarrow> None
      | Some day \<Rightarrow>
          (let rest = drop 10 s;
               rest = (if rest \<noteq> [] \<and> last rest = CHR ''Z'' then butlast rest else rest)
           in if rest = [] then Some (day * ns_per_day)
              else if hd rest = CHR ''T'' \<or> hd rest = CHR '' '' then
                (case read_time (tl rest) of
                   None \<Rightarrow> None
                 | Some secs \<Rightarrow> Some (day * ns_per_day + secs * ns_per_second))
              else None))"

subsection \<open>Text cells\<close>

text \<open>\<^verbatim>\<open>str.strip()\<close> removes the leading and the trailing whitespace: the characters
  9 to 13 (tab, line feed, vertical tab, form feed, carriage return), 28 to 31 (the
  separators) and 32 (the blank).\<close>

definition is_space :: "char \<Rightarrow> bool" where
  "is_space c = (let n = (of_char c :: nat) in (9 \<le> n \<and> n \<le> 13) \<or> (28 \<le> n \<and> n \<le> 32))"

definition strip :: "string \<Rightarrow> string" where
  "strip s = rev (dropWhile is_space (rev (dropWhile is_space s)))"

subsection \<open>Rows\<close>

text \<open>
  A row of the table as read from the file, with the columns the program uses. The two
  day columns are text at first and timestamps after lines 36 and 38, so their type is
  a parameter. Lines 40, 50 and 52 add columns: each extension below is the row after
  such an addition.
\<close>

record 't appointment =
  Age :: int
  Gender :: string
  Neighbourhood :: string
  ScheduledDay :: 't
  AppointmentDay :: 't
  No_show :: string
  Hipertension :: int
  Diabetes :: int
  Alcoholism :: int

record delayed = "Timestamp appointment" +
  DaysDiff :: int

text \<open>\<open>No_show_flag\<close> is \<open>None\<close> where pandas stores NaN.\<close>

record cleaned = delayed +
  No_show_flag :: "int option"
  AppointmentWeekday :: string

subsection \<open>The cleaning pipeline (lines 33 to 52)\<close>

datatype error = ParserError

text \<open>Lines 36 and 38: both day cells of a row become timestamps. (The source converts
  one column, then the other; a cell that cannot be read raises in either.)\<close>

definition convert_days ::
  "(string \<Rightarrow> Timestamp option) \<Rightarrow> string appointment \<Rightarrow> Timestamp appointment option" where
  "convert_days rd r =
     (case rd (ScheduledDay r) of
        None \<Rightarrow> None
      | Some s \<Rightarrow>
          (case rd (AppointmentDay r) of
             None \<Rightarrow> None
           | Some a \<Rightarrow>
               Some \<lparr>Age = Age r, Gender = Gender r, Neighbourhood = Neighbourhood r,
                     ScheduledDay = s, AppointmentDay = a, No_show = No_show r,
                     Hipertension = Hipertension r, Diabetes = Diabetes r,
                     Alcoholism = Alcoholism r\<rparr>))"

text \<open>Line 40: \<^verbatim>\<open>df['DaysDiff'] = (df['AppointmentDay'] - df['ScheduledDay']).dt.days\<close>.\<close>

definition add_DaysDiff :: "Timestamp appointment \<Rightarrow> delayed" where
  "add_DaysDiff r =
     appointment.extend r (delayed.fields (dt_days (AppointmentDay r - ScheduledDay r)))"

text \<open>Lines 46 to 48: the three text columns are stripped.\<close>

definition strip_text :: "delayed \<Rightarrow> delayed" where
  "strip_text r =
     r\<lparr>Gender := strip (Gender r), Neighbourhood := strip (Neighbourhood r),
       No_show := strip (No_show r)\<rparr>"

text \<open>Line 50: \<^verbatim>\<open>df['No-show'].map({'No': 0, 'Yes': 1})\<close>. \<^verbatim>\<open>Series.map\<close> with a
  dictionary gives NaN for a value that is not a key.\<close>

definition no_show_map :: "string \<Rightarrow> int option" where
  "no_show_map v = map_of [(''No'', 0), (''Yes'', 1)] v"

text \<open>Lines 50 and 52: the flag and the weekday name are added.\<close>

definition add_flag_weekday :: "delayed \<Rightarrow> cleaned" where
  "add_flag_weekday r =
     delayed.extend r (cleaned.fields (no_show_map (No_show r)) (day_name (AppointmentDay r)))"

definition clean ::
  "(string \<Rightarrow> Timestamp option) \<Rightarrow> string appointment list \<Rightarrow> error + cleaned list" where
  "clean rd df =
     (let df = filter (\<lambda>r. Age r \<ge> 0) df
      in case those (map (convert_days rd) df) of
           None \<Rightarrow> Inl ParserError
         | Some df \<Rightarrow>
             (let df = map add_DaysDiff df;
                  df = filter (\<lambda>r. DaysDiff r \<ge> 0) df;
                  df = map strip_text df;
                  df = map add_flag_weekday df
              in Inr df))"

subsection \<open>Data frames as objects\<close>

text \<open>
  The callback works on data frame objects: it copies the module's frame \<^verbatim>\<open>df\<close>, makes
  new frames by boolean indexing, and assigns two columns to the last of them in place.
  Whether \<^verbatim>\<open>df\<close> is left alone depends on which object each operation touches, so the
  model has a store of frames. A row of a stored frame has the cleaned columns and the
  two columns that line 214 and line 215 assign, \<open>None\<close> while the frame has no such
  column.
\<close>

record charted = cleaned +
  HasChronic :: "int option"
  ChronicCondition :: "string option"

type_synonym DataFrame = "charted list"
type_synonym ref = nat

text \<open>\<open>objects\<close> is the store, \<open>next_ref\<close> the first reference not yet given out, and
  \<open>df\<close> the object that the module's variable \<^verbatim>\<open>df\<close> refers to.\<close>

record state =
  objects :: "ref \<Rightarrow> DataFrame"
  next_ref :: ref
  df :: ref

definition new_object :: "DataFrame \<Rightarrow> state \<Rightarrow> ref \<times> state" where
  "new_object f st =
     (next_ref st, st\<lparr>objects := (objects st)(next_ref st := f), next_ref := Suc (next_ref st)\<rparr>)"

text \<open>\<^verbatim>\<open>frame.copy()\<close>: a new object with the same rows.\<close>

definition copy :: "ref \<Rightarrow> state \<Rightarrow> ref \<times> state" where
  "copy r st = new_object (objects st r) st"

text \<open>\<^verbatim>\<open>frame[mask]\<close> with a boolean column: a new object with the rows where the mask
  holds, in their order.\<close>

definition getitem_mask :: "ref \<Rightarrow> (charted \<Rightarrow> bool) \<Rightarrow> state \<Rightarrow> ref \<times> state" where
  "getitem_mask r keep st = new_object (filter keep (objects st r)) st"

text \<open>\<^verbatim>\<open>frame[column] = values\<close>: the object itself is changed, row by row.\<close>

definition setitem :: "ref \<Rightarrow> (charted \<Rightarrow> charted) \<Rightarrow> state \<Rightarrow> state" where
  "setitem r assign st = st\<lparr>objects := (objects st)(r := map assign (objects st r))\<rparr>"

text \<open>The state after the module's top level has run: \<^verbatim>\<open>df\<close> is the cleaned table, and
  it has no chronic-condition column.\<close>

definition as_frame :: "cleaned list \<Rightarrow> DataFrame" where
  "as_frame tbl = map (\<lambda>r. cleaned.extend r (charted.fields None None)) tbl"

definition startup :: "cleaned list \<Rightarrow> state" where
  "startup tbl = \<lparr>objects = (\<lambda>_. [])(0 := as_frame tbl), next_ref = 1, df = 0\<rparr>"

subsection \<open>Figures\<close>

text \<open>
  A figure is modelled by the data that plotly express puts into it; layout, colours
  and the binning that the browser does are left out. \<^verbatim>\<open>px.pie(frame, names=c)\<close> holds
  one label per row, and the pie shows how often each label occurs.
  \<^verbatim>\<open>px.histogram(frame, x=c, color=k)\<close> holds one trace per value of \<open>k\<close>, in the order
  in which the values first appear, with the \<open>x\<close> cell of every row of that value; the
  bars show how often each \<open>x\<close> occurs in a trace. \<^verbatim>\<open>px.box\<close> holds the \<open>x\<close> and \<open>y\<close>
  cells in the same way.
\<close>

definition unique :: "'a list \<Rightarrow> 'a list" where
  "unique xs = rev (remdups (rev xs))"

definition px_pie :: "('r \<Rightarrow> string) \<Rightarrow> 'r list \<Rightarrow> string list" where
  "px_pie names rows = map names rows"

definition px_histogram ::
  "('r \<Rightarrow> 'x) \<Rightarrow> ('r \<Rightarrow> string) \<Rightarrow> 'r list \<Rightarrow> (string \<times> 'x list) list" where
  "px_histogram x color rows =
     map (\<lambda>c. (c, map x (filter (\<lambda>r. color r = c) rows))) (unique (map color rows))"

definition px_box ::
  "('r \<Rightarrow> 'x) \<Rightarrow> ('r \<Rightarrow> 'y) \<Rightarrow> ('r \<Rightarrow> string) \<Rightarrow> 'r list \<Rightarrow> (string \<times> ('x \<times> 'y) list) list" where
  "px_box x y color rows =
     map (\<lambda>c. (c, map (\<lambda>r. (x r, y r)) (filter (\<lambda>r. color r = c) rows)))
       (unique (map color rows))"

record figures =
  pie_fig :: "string list"
  age_gender_fig :: "(string \<times> int list) list"
  weekday_fig :: "(string \<times> string list) list"
  nb_fig :: "(string \<times> string list) list"
  chronic_fig :: "(string \<times> string option list) list"
  delay_fig :: "(string \<times> (string \<times> int) list) list"

subsection \<open>Counting values\<close>

text \<open>
  \<^verbatim>\<open>Series.value_counts()\<close> counts each value of a column and sorts the table of counts,
  largest first. The order it gives to equal counts is the sorting routine's and is not
  documented, so the sort is a parameter: the theorems assume only that it returns the
  table it is given, rearranged so that the counts descend (\<open>sorts_descending\<close>).
  \<open>sort_values\<close> is one such sort, which keeps equal counts in their order of first
  appearance; the concrete examples use it.
\<close>

type_synonym counts = "(string \<times> nat) list"

definition value_counts :: "(counts \<Rightarrow> counts) \<Rightarrow> string list \<Rightarrow> counts" where
  "value_counts srt col = srt (map (\<lambda>v. (v, count_list col v)) (unique col))"

definition sorts_descending :: "(counts \<Rightarrow> counts) \<Rightarrow> bool" where
  "sorts_descending srt =
     (\<forall>t. mset (srt t) = mset t \<and> sorted_wrt (\<lambda>a b. snd b \<le> snd a) (srt t))"

definition sort_values :: "counts \<Rightarrow> counts" where
  "sort_values t = sort_key (\<lambda>kc. - int (snd kc)) t"

subsection \<open>The callback \<^verbatim>\<open>update_charts\<close> (lines 172 to 231)\<close>

text \<open>The dropdown gives \<^verbatim>\<open>None\<close> or a text; \<^verbatim>\<open>if selected_neighborhood:\<close> holds for a
  text that is not empty.\<close>

definition truthy :: "string option \<Rightarrow> bool" where
  "truthy v = (case v of None \<Rightarrow> False | Some s \<Rightarrow> s \<noteq> [])"

text \<open>Lines 173 to 181: the copy and the two filters. The range slider gives the two
  bounds \<^verbatim>\<open>age_range[0]\<close> and \<^verbatim>\<open>age_range[1]\<close>, here a pair.\<close>

definition filter_rows :: "string option \<Rightarrow> int \<times> int \<Rightarrow> state \<Rightarrow> ref \<times> state" where
  "filter_rows selected_neighborhood age_range st =
     (let (dff, st) = copy (df st) st;
          (dff, st) =
            (if truthy selected_neighborhood
             then getitem_mask dff (\<lambda>r. Some (Neighbourhood r) = selected_neighborhood) st
             else (dff, st))
      in getitem_mask dff (\<lambda>r. Age r \<ge> fst age_range \<and> Age r \<le> snd age_range) st)"

text \<open>Line 215: \<^verbatim>\<open>lambda x: 'Yes' if x > 0 else 'No'\<close> (a comparison with NaN is false).\<close>

definition chronic_label :: "int option \<Rightarrow> string" where
  "chronic_label x = (case x of Some n \<Rightarrow> if n > 0 then ''Yes'' else ''No'' | None \<Rightarrow> ''No'')"

text \<open>Lines 183 to 231: the six figures of the frame \<open>dff\<close>, and the two columns that
  are assigned to it on the way.\<close>

definition build_figures :: "(counts \<Rightarrow> counts) \<Rightarrow> ref \<Rightarrow> state \<Rightarrow> figures \<times> state" where
  "build_figures srt dff st =
     (let pie = px_pie No_show (objects st dff);
          age_gender = px_histogram Age Gender (objects st dff);
          weekday = px_histogram AppointmentWeekday No_show (objects st dff);
          top_nb = map fst (take 20 (value_counts srt (map Neighbourhood (objects st dff))));
          nb = px_histogram Neighbourhood No_show
                 (filter (\<lambda>r. Neighbourhood r \<in> set top_nb) (objects st dff));
          st = setitem dff
                 (\<lambda>r. r\<lparr>HasChronic := Some (Hipertension r + Diabetes r + Alcoholism r)\<rparr>) st;
          st = setitem dff (\<lambda>r. r\<lparr>ChronicCondition := Some (chronic_label (HasChronic r))\<rparr>) st;
          chronic = px_histogram ChronicCondition No_show (objects st dff);
          delay = px_box No_show DaysDiff No_show (objects st dff)
      in (\<lparr>pie_fig = pie, age_gender_fig = age_gender, weekday_fig = weekday, nb_fig = nb,
           chronic_fig = chronic, delay_fig = delay\<rparr>, st))"

definition update_charts ::
  "(counts \<Rightarrow> counts) \<Rightarrow> string option \<Rightarrow> int \<times> int \<Rightarrow> state \<Rightarrow> figures \<times> state" where
  "update_charts srt selected_neighborhood age_range st =
     (let (dff, st) = filter_rows selected_neighborhood age_range st
      in build_figures srt dff st)"

text \<open>The figures of the whole of \<^verbatim>\<open>df\<close>: lines 183 to 231 on an unfiltered copy.\<close>

definition whole_table_figures :: "(counts \<Rightarrow> counts) \<Rightarrow> state \<Rightarrow> figures \<times> state" where
  "whole_table_figures srt st = (let (dff, st) = copy (df st) st in build_figures srt dff st)"

section \<open>Notions used in the statements\<close>

text \<open>An input row survives the cleaning when its age is not negative and line 40 gives
  it a delay that is not negative.\<close>

definition survives :: "(string \<Rightarrow> Timestamp option) \<Rightarrow> string appointment \<Rightarrow> bool" where
  "survives rd q =
     (0 \<le> Age q \<and>
      (case (rd (ScheduledDay q), rd (AppointmentDay q)) of
         (Some s, Some a) \<Rightarrow> 0 \<le> dt_days (a - s)
       | _ \<Rightarrow> False))"

text \<open>The cleaned row that lines 36 to 52 make of an input row that survives.\<close>

definition cleaned_of :: "(string \<Rightarrow> Timestamp option) \<Rightarrow> string appointment \<Rightarrow> cleaned" where
  "cleaned_of rd q = add_flag_weekday (strip_text (add_DaysDiff (the (convert_days rd q))))"

text \<open>An input row in the form of the data set (the appointment day carries no time of
  day), and its cleaned row; a same-day appointment of this form.\<close>

definition sample_row :: "string appointment" where
  "sample_row =
     \<lparr>Age = 62, Gender = ''F'', Neighbourhood = ''JARDIM DA PENHA'',
      ScheduledDay = ''2016-04-27T08:36:51Z'', AppointmentDay = ''2016-04-29T00:00:00Z'',
      No_show = ''No'', Hipertension = 1, Diabetes = 0, Alcoholism = 0\<rparr>"

definition sample_cleaned :: cleaned where
  "sample_cleaned =
     \<lparr>Age = 62, Gender = ''F'', Neighbourhood = ''JARDIM DA PENHA'',
      ScheduledDay = 1461746211000000000, AppointmentDay = 1461888000000000000,
      No_show = ''No'', Hipertension = 1, Diabetes = 0, Alcoholism = 0, DaysDiff = 1,
      No_show_flag = Some 0, AppointmentWeekday = ''Friday''\<rparr>"

definition same_day_row :: "string appointment" where
  "same_day_row = sample_row\<lparr>ScheduledDay := ''2016-04-29T18:38:08Z''\<rparr>"

text \<open>The row subset of a request: the frame that lines 173 to 181 leave in \<^verbatim>\<open>dff\<close>.\<close>

definition subset_rows :: "string option \<Rightarrow> int \<times> int \<Rightarrow> state \<Rightarrow> DataFrame" where
  "subset_rows sel age_range st = (let (dff, st') = filter_rows sel age_range st in objects st' dff)"

text \<open>The rows that the two filters keep.\<close>

definition selected :: "string option \<Rightarrow> int \<times> int \<Rightarrow> charted \<Rightarrow> bool" where
  "selected sel age_range r =
     ((truthy sel \<longrightarrow> Some (Neighbourhood r) = sel) \<and> fst age_range \<le> Age r \<and> Age r \<le> snd age_range)"

text \<open>The values on the x axis of a histogram: the cells of all its traces.\<close>

definition shown_values :: "(string \<times> 'x list) list \<Rightarrow> 'x set" where
  "shown_values fig = set (concat (map snd fig))"

text \<open>The state in which \<^verbatim>\<open>df\<close> holds the given rows.\<close>

definition with_table :: "DataFrame \<Rightarrow> state \<Rightarrow> state" where
  "with_table rows st = st\<lparr>objects := (objects st)(df st := rows)\<rparr>"

text \<open>A row after lines 214 and 215, and the six figures as a function of the rows of
  \<^verbatim>\<open>dff\<close> (\<open>build_figures_eq\<close> shows that lines 183 to 231 compute them).\<close>

definition add_chronic :: "charted \<Rightarrow> charted" where
  "add_chronic r =
     r\<lparr>HasChronic := Some (Hipertension r + Diabetes r + Alcoholism r),
       ChronicCondition := Some (chronic_label (Some (Hipertension r + Diabetes r + Alcoholism r)))\<rparr>"

definition figures_of :: "(counts \<Rightarrow> counts) \<Rightarrow> DataFrame \<Rightarrow> figures" where
  "figures_of srt rows =
     \<lparr>pie_fig = px_pie No_show rows,
      age_gender_fig = px_histogram Age Gender rows,
      weekday_fig = px_histogram AppointmentWeekday No_show rows,
      nb_fig = px_histogram Neighbourhood No_show
        (filter (\<lambda>r. Neighbourhood r \<in> set (map fst (take 20 (value_counts srt (map Neighbourhood rows))))) rows),
      chronic_fig = px_histogram ChronicCondition No_show (map add_chronic rows),
      delay_fig = px_box No_show DaysDiff No_show (map add_chronic rows)\<rparr>"

text \<open>Cleaned tables for the examples: four rows of two neighbourhoods; twenty-two rows
  of twenty-one neighbourhoods, the last of them twice; a patient of 115 years.\<close>

definition ward_sample :: "cleaned list" where
  "ward_sample =
     [sample_cleaned,
      sample_cleaned\<lparr>Age := 70\<rparr>,
      sample_cleaned\<lparr>Neighbourhood := ''CENTRO'', Age := 30\<rparr>,
      sample_cleaned\<lparr>Age := 20, No_show := ''Yes'', No_show_flag := Some 1\<rparr>]"

definition wards :: "cleaned list" where
  "wards = map (\<lambda>c. sample_cleaned\<lparr>Neighbourhood := [c]\<rparr>) ''ABCDEFGHIJKLMNOPQRSTUU''"

definition old_cleaned :: cleaned where
  "old_cleaned = sample_cleaned\<lparr>Age := 115\<rparr>"

section \<open>The cleaning pipeline\<close>

subsection \<open>Columns of the intermediate rows\<close>

lemma add_DaysDiff_sel [simp]:
  "Age (add_DaysDiff r) = Age r"
  "Gender (add_DaysDiff r) = Gender r"
  "Neighbourhood (add_DaysDiff r) = Neighbourhood r"
  "ScheduledDay (add_DaysDiff r) = ScheduledDay r"
  "AppointmentDay (add_DaysDiff r) = AppointmentDay r"
  "No_show (add_DaysDiff r) = No_show r"
  "Hipertension (add_DaysDiff r) = Hipertension r"
  "Diabetes (add_DaysDiff r) = Diabetes r"
  "Alcoholism (add_DaysDiff r) = Alcoholism r"
  "DaysDiff (add_DaysDiff r) = dt_days (AppointmentDay r - ScheduledDay r)"
  by (simp_all add: add_DaysDiff_def appointment.defs delayed.defs)

lemma add_flag_weekday_sel [simp]:
  "Age (add_flag_weekday r) = Age r"
  "Gender (add_flag_weekday r) = Gender r"
  "Neighbourhood (add_flag_weekday r) = Neighbourhood r"
  "ScheduledDay (add_flag_weekday r) = ScheduledDay r"
  "AppointmentDay (add_flag_weekday r) = AppointmentDay r"
  "No_show (add_flag_weekday r) = No_show r"
  "Hipertension (add_flag_weekday r) = Hipertension r"
  "Diabetes (add_flag_weekday r) = Diabetes r"
  "Alcoholism (add_flag_weekday r) = Alcoholism r"
  "DaysDiff (add_flag_weekday r) = DaysDiff r"
  "No_show_flag (add_flag_weekday r) = no_show_map (No_show r)"
  "AppointmentWeekday (add_flag_weekday r) = day_name (AppointmentDay r)"
  by (simp_all add: add_flag_weekday_def delayed.defs cleaned.defs)

lemma strip_text_sel [simp]:
  "Age (strip_text r) = Age r"
  "Gender (strip_text r) = strip (Gender r)"
  "Neighbourhood (strip_text r) = strip (Neighbourhood r)"
  "ScheduledDay (strip_text r) = ScheduledDay r"
  "AppointmentDay (strip_text r) = AppointmentDay r"
  "No_show (strip_text r) = strip (No_show r)"
  "Hipertension (strip_text r) = Hipertension r"
  "Diabetes (strip_text r) = Diabetes r"
  "Alcoholism (strip_text r) = Alcoholism r"
  "DaysDiff (strip_text r) = DaysDiff r"
  by (simp_all add: strip_text_def)

lemma convert_days_sel:
  assumes "convert_days rd q = Some p"
  shows "Age p = Age q" "Gender p = Gender q" "Neighbourhood p = Neighbourhood q"
    "rd (ScheduledDay q) = Some (ScheduledDay p)"
    "rd (AppointmentDay q) = Some (AppointmentDay p)"
    "No_show p = No_show q" "Hipertension p = Hipertension q" "Diabetes p = Diabetes q"
    "Alcoholism p = Alcoholism q"
  using assms by (auto simp: convert_days_def split: option.splits)

lemma convert_days_None:
  "convert_days rd q = None \<longleftrightarrow> rd (ScheduledDay q) = None \<or> rd (AppointmentDay q) = None"
  by (auto simp: convert_days_def split: option.splits)

lemma those_map_Some:
  "those (map f xs) = Some ys \<Longrightarrow> ys = map (\<lambda>x. the (f x)) xs \<and> (\<forall>x \<in> set xs. f x \<noteq> None)"
  by (induction xs arbitrary: ys) (auto split: option.splits)

lemma those_map_total:
  "(\<forall>x \<in> set xs. f x \<noteq> None) \<Longrightarrow> those (map f xs) = Some (map (\<lambda>x. the (f x)) xs)"
  by (induction xs) auto

lemma no_show_map_cases:
  "no_show_map v = (if v = ''No'' then Some 0 else if v = ''Yes'' then Some 1 else None)"
  by (simp add: no_show_map_def)

subsection \<open>The cleaned table, row by row\<close>

text \<open>When the cleaning succeeds, the cleaned table holds the cleaned rows of the input
  rows that survive, in their order; and it succeeds exactly when every day cell of a
  row of non-negative age can be read.\<close>

lemma clean_Inr:
  assumes "clean rd tbl = Inr out"
  shows "out = map (cleaned_of rd) (filter (survives rd) tbl)"
    and "\<forall>q \<in> set tbl. 0 \<le> Age q \<longrightarrow> convert_days rd q \<noteq> None"
proof -
  let ?aged = "filter (\<lambda>r. 0 \<le> Age r) tbl"
  from assms obtain ps where ps: "those (map (convert_days rd) ?aged) = Some ps"
    and out: "out = map add_flag_weekday (map strip_text
                 (filter (\<lambda>r. 0 \<le> DaysDiff r) (map add_DaysDiff ps)))"
    by (auto simp: clean_def Let_def split: option.splits)
  from those_map_Some [OF ps]
  have ps_eq: "ps = map (\<lambda>q. the (convert_days rd q)) ?aged"
    and conv: "\<forall>q \<in> set ?aged. convert_days rd q \<noteq> None"
    by simp_all
  from conv show "\<forall>q \<in> set tbl. 0 \<le> Age q \<longrightarrow> convert_days rd q \<noteq> None"
    by simp
  have surv: "survives rd q \<longleftrightarrow> 0 \<le> Age q \<and> 0 \<le> DaysDiff (add_DaysDiff (the (convert_days rd q)))"
    if "q \<in> set tbl" for q
  proof (cases "0 \<le> Age q")
    case True
    with conv that obtain p where p: "convert_days rd q = Some p" by auto
    show ?thesis
      using True convert_days_sel(4,5) [OF p] by (simp add: survives_def p)
  next
    case False
    then show ?thesis by (simp add: survives_def)
  qed
  have "filter (\<lambda>q. 0 \<le> DaysDiff (add_DaysDiff (the (convert_days rd q)))) ?aged
        = filter (survives rd) tbl"
    unfolding filter_filter by (rule filter_cong) (auto simp: surv)
  then show "out = map (cleaned_of rd) (filter (survives rd) tbl)"
    by (simp add: out ps_eq filter_map comp_def cleaned_of_def)
qed

lemma clean_total:
  assumes "\<forall>q \<in> set tbl. 0 \<le> Age q \<longrightarrow> convert_days rd q \<noteq> None"
  shows "\<exists>out. clean rd tbl = Inr out"
proof -
  have "those (map (convert_days rd) (filter (\<lambda>r. 0 \<le> Age r) tbl)) \<noteq> None"
    using assms those_map_total [of "filter (\<lambda>r. 0 \<le> Age r) tbl" "convert_days rd"] by simp
  then show ?thesis
    by (auto simp: clean_def Let_def split: option.splits)
qed

lemma cleaned_of_sel:
  assumes "survives rd q"
  shows "Age (cleaned_of rd q) = Age q"
    and "No_show (cleaned_of rd q) = strip (No_show q)"
    and "No_show_flag (cleaned_of rd q) = no_show_map (strip (No_show q))"
    and "Neighbourhood (cleaned_of rd q) = strip (Neighbourhood q)"
    and "Gender (cleaned_of rd q) = strip (Gender q)"
    and "rd (ScheduledDay q) = Some (ScheduledDay (cleaned_of rd q))"
    and "rd (AppointmentDay q) = Some (AppointmentDay (cleaned_of rd q))"
    and "DaysDiff (cleaned_of rd q)
           = dt_days (AppointmentDay (cleaned_of rd q) - ScheduledDay (cleaned_of rd q))"
    and "0 \<le> DaysDiff (cleaned_of rd q)"
proof -
  from assms obtain p where p: "convert_days rd q = Some p"
    by (auto simp: survives_def convert_days_def split: option.splits)
  note sel = convert_days_sel [OF p]
  show "Age (cleaned_of rd q) = Age q"
    and "No_show (cleaned_of rd q) = strip (No_show q)"
    and "No_show_flag (cleaned_of rd q) = no_show_map (strip (No_show q))"
    and "Neighbourhood (cleaned_of rd q) = strip (Neighbourhood q)"
    and "Gender (cleaned_of rd q) = strip (Gender q)"
    and "rd (ScheduledDay q) = Some (ScheduledDay (cleaned_of rd q))"
    and "rd (AppointmentDay q) = Some (AppointmentDay (cleaned_of rd q))"
    and "DaysDiff (cleaned_of rd q)
           = dt_days (AppointmentDay (cleaned_of rd q) - ScheduledDay (cleaned_of rd q))"
    by (simp_all add: cleaned_of_def p sel)
  show "0 \<le> DaysDiff (cleaned_of rd q)"
    using assms sel(4,5) by (simp add: cleaned_of_def p survives_def)
qed

lemma survives_age: "survives rd q \<Longrightarrow> 0 \<le> Age q"
  by (simp add: survives_def)

subsection \<open>Whole days of a difference and calendar dates\<close>

lemma div_lower: "(0::int) < n \<Longrightarrow> n * j \<le> x \<Longrightarrow> j \<le> x div n"
  using zdiv_mono1 by fastforce

lemma div_upper:
  assumes "(0::int) < n" "x < n * j"
  shows "x div n < j"
proof (rule ccontr)
  assume "\<not> x div n < j"
  then have "n * j \<le> n * (x div n)"
    using assms(1) by (simp add: mult_left_mono)
  moreover have "n * (x div n) + x mod n = x" by simp
  moreover have "0 \<le> x mod n" using assms(1) by simp
  ultimately show False using assms(2) by linarith
qed

lemma div_diff_bounds:
  assumes "(0::int) < n"
  shows "a div n - s div n - 1 \<le> (a - s) div n" and "(a - s) div n \<le> a div n - s div n"
proof -
  define k where "k = a div n - s div n"
  have a: "n * (a div n) + a mod n = a" and s: "n * (s div n) + s mod n = s"
    by simp_all
  have am: "0 \<le> a mod n" "a mod n < n" and sm: "0 \<le> s mod n" "s mod n < n"
    using assms by simp_all
  have k1: "n * (k - 1) = n * (a div n) - n * (s div n) - n"
    and k2: "n * (k + 1) = n * (a div n) - n * (s div n) + n"
    by (simp_all add: k_def algebra_simps)
  have "n * (k - 1) \<le> a - s"
    using a s am sm k1 by linarith
  then have lo: "k - 1 \<le> (a - s) div n"
    by (rule div_lower [OF assms])
  have "a - s < n * (k + 1)"
    using a s am sm k2 by linarith
  then have "(a - s) div n < k + 1"
    by (rule div_upper [OF assms])
  with lo show "a div n - s div n - 1 \<le> (a - s) div n" and "(a - s) div n \<le> a div n - s div n"
    by (simp_all add: k_def)
qed

text \<open>What line 40 computes: the difference of the dates, or one day less.\<close>

lemma dt_days_bounds:
  "dt_date a - dt_date s - 1 \<le> dt_days (a - s)" "dt_days (a - s) \<le> dt_date a - dt_date s"
  unfolding dt_days_def dt_date_def
  by (rule div_diff_bounds; simp add: ns_per_day_def ns_per_second_def)+

lemma negative_date_difference_dropped:
  assumes "clean rd tbl = Inr out" "r \<in> set out"
  shows "0 \<le> dt_date (AppointmentDay r) - dt_date (ScheduledDay r)"
proof -
  have out: "out = map (cleaned_of rd) (filter (survives rd) tbl)"
    by (rule clean_Inr(1) [OF assms(1)])
  with assms(2) obtain q where "survives rd q" "r = cleaned_of rd q" by auto
  then have "0 \<le> dt_days (AppointmentDay r - ScheduledDay r)"
    using cleaned_of_sel(8,9) [of rd q] by simp
  then show ?thesis
    using dt_days_bounds(2) [of "AppointmentDay r" "ScheduledDay r"] by linarith
qed

lemma spec_example_dropped:
  "clean to_datetime [sample_row\<lparr>ScheduledDay := ''2016-05-10'', AppointmentDay := ''2016-05-05''\<rparr>] = Inr []"
  "map_option DaysDiff (map_option add_DaysDiff (convert_days to_datetime (sample_row\<lparr>ScheduledDay := ''2016-05-10'', AppointmentDay := ''2016-05-05''\<rparr>))) = Some (- 5)"
  by code_simp+

subsection \<open>Claims about the cleaned table\<close>

text \<open>
  Claim C1. For every row that survives cleaning, \<open>DaysDiff\<close> is the number of days
  between the calendar date of the appointment and the calendar date of the booking,
  and a row is dropped when that number is negative.

  Line 40 does not compute this number. It takes the whole days of the difference of
  the two timestamps, which is one day less than the difference of the dates whenever
  the booking has the later time of day (\<open>dt_days_bounds\<close>). An appointment booked at
  18:38:08 for the same day has a date difference of 0, gets \<open>DaysDiff = -1\<close> and is
  dropped by line 42; an appointment booked at 08:36:51 two days ahead gets
  \<open>DaysDiff = 1\<close>. Rows with a negative date difference are dropped, as the claim
  says (\<open>negative_date_difference_dropped\<close>, \<open>spec_example_dropped\<close>).
\<close>

theorem same_day_appointment_dropped:
  "clean to_datetime [same_day_row] = Inr [] \<and>
   map_option dt_date (to_datetime (AppointmentDay same_day_row)) = Some 16920 \<and>
   map_option dt_date (to_datetime (ScheduledDay same_day_row)) = Some 16920 \<and>
   clean to_datetime [sample_row] = Inr [sample_cleaned] \<and>
   DaysDiff sample_cleaned = 1 \<and>
   dt_date (AppointmentDay sample_cleaned) - dt_date (ScheduledDay sample_cleaned) = 2"
  by code_simp

text \<open>
  Claim C4. Every row of the cleaned table has \<open>Age \<ge> 0\<close> and \<open>DaysDiff \<ge> 0\<close>, and a
  row of negative age leaves no row in the cleaned table: the cleaned table has at most
  as many rows as the input has rows of non-negative age.
\<close>

theorem cleaned_rows_nonnegative:
  assumes "clean rd tbl = Inr out"
  shows "(\<forall>r \<in> set out. 0 \<le> Age r \<and> 0 \<le> DaysDiff r) \<and>
         length out \<le> length (filter (\<lambda>q. 0 \<le> Age q) tbl)"
proof -
  have out: "out = map (cleaned_of rd) (filter (survives rd) tbl)"
    by (rule clean_Inr(1) [OF assms])
  have "0 \<le> Age r \<and> 0 \<le> DaysDiff r" if "r \<in> set out" for r
  proof -
    from that out obtain q where "survives rd q" "r = cleaned_of rd q" by auto
    then show ?thesis
      using cleaned_of_sel(1,9) [of rd q] survives_age [of rd q] by simp
  qed
  moreover have "length (filter (survives rd) tbl) \<le> length (filter (\<lambda>q. 0 \<le> Age q) tbl)"
    by (induction tbl) (auto dest: survives_age)
  ultimately show ?thesis by (simp add: out)
qed

lemma clean_sample: "clean to_datetime [sample_row\<lparr>Age := - 1\<rparr>, sample_row] = Inr [sample_cleaned]"
  by code_simp

text \<open>The rule at work: of a row of age -1 and a good row, only the good row is kept.\<close>

theorem cleaned_rows_nonnegative_witness:
  "clean to_datetime [sample_row\<lparr>Age := - 1\<rparr>, sample_row] = Inr [sample_cleaned] \<and>
   0 \<le> Age sample_cleaned \<and> 0 \<le> DaysDiff sample_cleaned \<and>
   length [sample_cleaned] \<le> length (filter (\<lambda>q. 0 \<le> Age q) [sample_row\<lparr>Age := - 1\<rparr>, sample_row])"
  using cleaned_rows_nonnegative [OF clean_sample] clean_sample by simp

text \<open>
  Claim C5. In every row of the cleaned table, \<open>No_show_flag\<close> is 1 exactly when the
  outcome is \<^verbatim>\<open>Yes\<close>, and 0 when it is \<^verbatim>\<open>No\<close>, where the outcome of a cleaned row is the
  stripped outcome of the input row.
\<close>

theorem no_show_flag_of_outcome:
  assumes "clean rd tbl = Inr out"
  shows "(\<forall>r \<in> set out. (No_show_flag r = Some 1 \<longleftrightarrow> No_show r = ''Yes'') \<and>
                          (No_show r = ''No'' \<longrightarrow> No_show_flag r = Some 0)) \<and>
         map No_show out = map (\<lambda>q. strip (No_show q)) (filter (survives rd) tbl)"
proof -
  have out: "out = map (cleaned_of rd) (filter (survives rd) tbl)"
    by (rule clean_Inr(1) [OF assms])
  have "(No_show_flag r = Some 1 \<longleftrightarrow> No_show r = ''Yes'') \<and>
        (No_show r = ''No'' \<longrightarrow> No_show_flag r = Some 0)" if "r \<in> set out" for r
  proof -
    from that out obtain q where "survives rd q" "r = cleaned_of rd q" by auto
    then show ?thesis
      using cleaned_of_sel(2,3) [of rd q] by (simp add: no_show_map_cases)
  qed
  moreover have "map No_show out = map (\<lambda>q. strip (No_show q)) (filter (survives rd) tbl)"
    by (simp add: out cleaned_of_sel(2))
  ultimately show ?thesis by blast
qed

lemma clean_padded_yes:
  "clean to_datetime [sample_row\<lparr>No_show := '' Yes ''\<rparr>]
     = Inr [sample_cleaned\<lparr>No_show := ''Yes'', No_show_flag := Some 1\<rparr>]"
  by code_simp

text \<open>The rule at work: the padded outcome \<^verbatim>\<open>" Yes "\<close> becomes \<^verbatim>\<open>Yes\<close> with flag 1.\<close>

theorem no_show_flag_of_outcome_witness:
  "clean to_datetime [sample_row\<lparr>No_show := '' Yes ''\<rparr>]
     = Inr [sample_cleaned\<lparr>No_show := ''Yes'', No_show_flag := Some 1\<rparr>] \<and>
   No_show (sample_cleaned\<lparr>No_show := ''Yes'', No_show_flag := Some 1\<rparr>) = ''Yes'' \<and>
   No_show_flag (sample_cleaned\<lparr>No_show := ''Yes'', No_show_flag := Some 1\<rparr>) = Some 1 \<and>
   strip '' Yes '' = ''Yes''"
  using no_show_flag_of_outcome [OF clean_padded_yes] clean_padded_yes
  by (simp add: strip_def is_space_def)

text \<open>
  Claim C2. When the stripped outcome of a row is neither \<^verbatim>\<open>No\<close> nor \<^verbatim>\<open>Yes\<close>, the
  pipeline fails with a validation error and never leaves the flag without a value.

  The source has no such check: \<^verbatim>\<open>Series.map\<close> gives NaN for a value that is not a key
  of the dictionary, and nothing raises. A row with the outcome \<^verbatim>\<open>Maybe\<close> is cleaned like
  any other row and keeps an empty flag.
\<close>

theorem unknown_outcome_counterexample:
  "clean to_datetime [sample_row\<lparr>No_show := ''Maybe''\<rparr>]
     = Inr [sample_cleaned\<lparr>No_show := ''Maybe'', No_show_flag := None\<rparr>]"
  by code_simp

text \<open>
  Claim C2, as the code has it. The outcome of a row never makes the cleaning fail:
  when the day cells of the rows of non-negative age can be read, the cleaning returns
  a table; the table has a row for every input row that survives the age filter and
  the delay filter, whatever its outcome; and a row whose stripped outcome is neither
  \<^verbatim>\<open>No\<close> nor \<^verbatim>\<open>Yes\<close> has no flag.
\<close>

theorem unknown_outcome_kept_without_flag:
  assumes "\<forall>q \<in> set tbl. 0 \<le> Age q \<longrightarrow>
             rd (ScheduledDay q) \<noteq> None \<and> rd (AppointmentDay q) \<noteq> None"
  shows "\<exists>out. clean rd tbl = Inr out \<and>
           map No_show out = map (\<lambda>q. strip (No_show q)) (filter (survives rd) tbl) \<and>
           (\<forall>r \<in> set out. No_show r \<noteq> ''No'' \<and> No_show r \<noteq> ''Yes'' \<longrightarrow> No_show_flag r = None)"
proof -
  from assms have "\<forall>q \<in> set tbl. 0 \<le> Age q \<longrightarrow> convert_days rd q \<noteq> None"
    by (simp add: convert_days_None)
  then obtain out where c: "clean rd tbl = Inr out"
    using clean_total by blast
  have out: "out = map (cleaned_of rd) (filter (survives rd) tbl)"
    by (rule clean_Inr(1) [OF c])
  have "No_show_flag r = None" if "r \<in> set out" "No_show r \<noteq> ''No''" "No_show r \<noteq> ''Yes''" for r
  proof -
    from that(1) out obtain q where "survives rd q" "r = cleaned_of rd q" by auto
    then show ?thesis
      using cleaned_of_sel(2,3) [of rd q] that(2,3) by (simp add: no_show_map_cases)
  qed
  moreover have "map No_show out = map (\<lambda>q. strip (No_show q)) (filter (survives rd) tbl)"
    by (simp add: out cleaned_of_sel(2))
  ultimately show ?thesis using c by blast
qed

theorem unknown_outcome_kept_without_flag_witness:
  "(\<exists>out. clean to_datetime [sample_row\<lparr>No_show := ''Maybe''\<rparr>] = Inr out \<and>
      map No_show out = [''Maybe''] \<and> map No_show_flag out = [None])"
proof -
  have "\<forall>q \<in> set [sample_row\<lparr>No_show := ''Maybe''\<rparr>]. 0 \<le> Age q \<longrightarrow>
          to_datetime (ScheduledDay q) \<noteq> None \<and> to_datetime (AppointmentDay q) \<noteq> None"
    by code_simp
  from unknown_outcome_kept_without_flag [OF this]
  obtain out where "clean to_datetime [sample_row\<lparr>No_show := ''Maybe''\<rparr>] = Inr out"
    by blast
  moreover have "clean to_datetime [sample_row\<lparr>No_show := ''Maybe''\<rparr>]
     = Inr [sample_cleaned\<lparr>No_show := ''Maybe'', No_show_flag := None\<rparr>]"
    by code_simp
  ultimately show ?thesis by auto
qed

section \<open>The callback\<close>

subsection \<open>What the callback computes and what it writes\<close>

lemma selected_truthy:
  "truthy sel \<Longrightarrow>
     selected sel rng = (\<lambda>r. Some (Neighbourhood r) = sel \<and> fst rng \<le> Age r \<and> Age r \<le> snd rng)"
  by (simp add: selected_def fun_eq_iff)

lemma selected_falsy:
  "\<not> truthy sel \<Longrightarrow> selected sel rng = (\<lambda>r. fst rng \<le> Age r \<and> Age r \<le> snd rng)"
  by (simp add: selected_def fun_eq_iff)

lemma filter_rows_eq:
  "filter_rows sel rng st =
     (if truthy sel then
        (Suc (Suc (next_ref st)),
         st\<lparr>objects := (objects st)
               (next_ref st := objects st (df st),
                Suc (next_ref st) := filter (\<lambda>r. Some (Neighbourhood r) = sel) (objects st (df st)),
                Suc (Suc (next_ref st)) := filter (selected sel rng) (objects st (df st))),
             next_ref := Suc (Suc (Suc (next_ref st)))\<rparr>)
      else
        (Suc (next_ref st),
         st\<lparr>objects := (objects st)
               (next_ref st := objects st (df st),
                Suc (next_ref st) := filter (selected sel rng) (objects st (df st))),
             next_ref := Suc (Suc (next_ref st))\<rparr>))"
  by (simp add: filter_rows_def copy_def getitem_mask_def new_object_def Let_def
        selected_truthy selected_falsy conj_commute)

lemma assign_chronic_columns:
  "(\<lambda>r. r\<lparr>ChronicCondition := Some (chronic_label (HasChronic r))\<rparr>) \<circ>
   (\<lambda>r. r\<lparr>HasChronic := Some (Hipertension r + Diabetes r + Alcoholism r)\<rparr>) = add_chronic"
  by (simp add: fun_eq_iff add_chronic_def)

lemma build_figures_eq:
  "build_figures srt dff st =
     (figures_of srt (objects st dff), st\<lparr>objects := (objects st)(dff := map add_chronic (objects st dff))\<rparr>)"
  by (simp add: build_figures_def figures_of_def setitem_def Let_def assign_chronic_columns)

lemma subset_rows_eq: "subset_rows sel rng st = filter (selected sel rng) (objects st (df st))"
  by (simp add: subset_rows_def filter_rows_eq)

lemma update_charts_figures:
  "fst (update_charts srt sel rng st) = figures_of srt (subset_rows sel rng st)"
  by (simp add: update_charts_def filter_rows_eq build_figures_eq subset_rows_eq)

lemma update_charts_frame:
  assumes "r < next_ref st"
  shows "objects (snd (update_charts srt sel rng st)) r = objects st r"
  using assms by (simp add: update_charts_def filter_rows_eq build_figures_eq)

lemma update_charts_df: "df (snd (update_charts srt sel rng st)) = df st"
  by (simp add: update_charts_def filter_rows_eq build_figures_eq)

lemma update_charts_next_ref: "next_ref st < next_ref (snd (update_charts srt sel rng st))"
  by (simp add: update_charts_def filter_rows_eq build_figures_eq)

lemma whole_table_figures_eq:
  "fst (whole_table_figures srt st) = figures_of srt (objects st (df st))"
  by (simp add: whole_table_figures_def copy_def new_object_def build_figures_eq)

text \<open>An assignment changes the object it is given: without the copy and the
  filters, lines 214 and 215 would reach the table.\<close>

lemma setitem_same: "objects (setitem r f st) r = map f (objects st r)"
  by (simp add: setitem_def)

lemma as_frame_sel [simp]:
  "Age (cleaned.extend r x) = Age r"
  "Neighbourhood (cleaned.extend r x) = Neighbourhood r"
  "No_show (cleaned.extend r x) = No_show r"
  "DaysDiff (cleaned.extend r x) = DaysDiff r"
  by (simp_all add: cleaned.defs)

lemma clean_age_nonneg:
  assumes "clean rd raw = Inr tbl" "r \<in> set tbl"
  shows "0 \<le> Age r"
proof -
  have "tbl = map (cleaned_of rd) (filter (survives rd) raw)"
    by (rule clean_Inr(1) [OF assms(1)])
  with assms(2) obtain q where "survives rd q" "r = cleaned_of rd q" by auto
  then show ?thesis
    using cleaned_of_sel(1) [of rd q] survives_age [of rd q] by simp
qed

subsection \<open>The ranking of the neighbourhoods\<close>

lemma set_unique [simp]: "set (unique xs) = set xs"
  by (simp add: unique_def)

lemma distinct_unique [simp]: "distinct (unique xs)"
  by (simp add: unique_def)

lemma length_unique: "length (unique xs) = card (set xs)"
  using distinct_card [of "unique xs"] by simp

lemma shown_values_histogram: "shown_values (px_histogram x color rows) = x ` set rows"
  by (auto simp: shown_values_def px_histogram_def)

text \<open>The ranking of a column: every value of the column once, with its count, the counts
  descending.\<close>

lemma value_counts_ranking:
  assumes "sorts_descending srt"
  shows "mset (map fst (value_counts srt col)) = mset (unique col)"
    and "\<forall>e \<in> set (value_counts srt col). snd e = count_list col (fst e)"
    and "sorted_wrt (\<lambda>a b. snd b \<le> snd a) (value_counts srt col)"
proof -
  let ?t = "map (\<lambda>v. (v, count_list col v)) (unique col)"
  from assms have m: "mset (srt ?t) = mset ?t" and s: "sorted_wrt (\<lambda>a b. snd b \<le> snd a) (srt ?t)"
    by (simp_all add: sorts_descending_def)
  from m have "mset (map fst (srt ?t)) = mset (map fst ?t)"
    by (metis mset_map)
  then show "mset (map fst (value_counts srt col)) = mset (unique col)"
    by (simp add: value_counts_def comp_def)
  from m have "set (srt ?t) = set ?t"
    by (rule mset_eq_setD)
  then show "\<forall>e \<in> set (value_counts srt col). snd e = count_list col (fst e)"
    by (auto simp: value_counts_def)
  from s show "sorted_wrt (\<lambda>a b. snd b \<le> snd a) (value_counts srt col)"
    by (simp add: value_counts_def)
qed

lemma top_of_ranking:
  fixes k :: nat and col :: "string list"
  assumes "sorts_descending srt"
  defines "best \<equiv> fst ` set (take k (value_counts srt col))"
  shows "best \<subseteq> set col"
    and "card best = min k (card (set col))"
    and "\<forall>n \<in> best. \<forall>m \<in> set col - best. count_list col m \<le> count_list col n"
proof -
  let ?vc = "value_counts srt col"
  note r = value_counts_ranking [OF assms(1), of col]
  have keys: "set (map fst ?vc) = set col"
    using mset_eq_setD [OF r(1)] by simp
  have dist: "distinct (map fst ?vc)"
    using mset_eq_imp_distinct_iff [OF r(1)] by simp
  have len: "length ?vc = card (set col)"
    using mset_eq_length [OF r(1)] by (simp add: length_unique)
  have best: "best = set (take k (map fst ?vc))"
    by (simp add: best_def take_map)
  show "best \<subseteq> set col"
    unfolding best using keys set_take_subset [of k "map fst ?vc"] by blast
  have "card best = length (take k (map fst ?vc))"
    unfolding best using dist by (intro distinct_card) simp
  then show "card best = min k (card (set col))"
    using len by (simp add: min.commute)
  show "\<forall>n \<in> best. \<forall>m \<in> set col - best. count_list col m \<le> count_list col n"
  proof (intro ballI)
    fix n m
    assume n: "n \<in> best" and m: "m \<in> set col - best"
    from n obtain a where a: "a \<in> set (take k ?vc)" "n = fst a"
      by (auto simp: best_def)
    from m keys have "m \<in> fst ` set ?vc"
      by simp
    then obtain b where b: "b \<in> set ?vc" "m = fst b"
      by blast
    from m b have "b \<notin> set (take k ?vc)"
      by (auto simp: best_def)
    with b(1) have bd: "b \<in> set (drop k ?vc)"
      by (metis Un_iff append_take_drop_id set_append)
    have "sorted_wrt (\<lambda>a b. snd b \<le> snd a) (take k ?vc @ drop k ?vc)"
      using r(3) by simp
    with a(1) bd have "snd b \<le> snd a"
      unfolding sorted_wrt_append by blast
    moreover have "snd a = count_list col n"
      using r(2) a in_set_takeD [OF a(1)] by simp
    moreover have "snd b = count_list col m"
      using r(2) b by simp
    ultimately show "count_list col m \<le> count_list col n"
      by simp
  qed
qed

lemma image_restricted: "f ` {r \<in> A. f r \<in> T} = T \<inter> f ` A"
  by auto

lemma nb_fig_shown:
  assumes "sorts_descending srt"
  shows "shown_values (nb_fig (fst (update_charts srt sel rng st)))
           = fst ` set (take 20 (value_counts srt (map Neighbourhood (subset_rows sel rng st))))"
proof -
  let ?rows = "subset_rows sel rng st"
  let ?col = "map Neighbourhood ?rows"
  let ?top = "fst ` set (take 20 (value_counts srt ?col))"
  have "shown_values (nb_fig (fst (update_charts srt sel rng st)))
          = Neighbourhood ` {r \<in> set ?rows. Neighbourhood r \<in> ?top}"
    by (simp add: update_charts_figures figures_of_def shown_values_histogram)
  also have "\<dots> = ?top \<inter> set ?col"
    by (simp add: image_restricted)
  also have "\<dots> = ?top"
    using top_of_ranking(1) [OF assms, of 20 ?col] by blast
  finally show ?thesis .
qed

lemma sorts_descending_sort_values: "sorts_descending sort_values"
proof -
  have "sorted_wrt (\<lambda>a b. snd b \<le> snd a) (sort_key (\<lambda>kc. - int (snd kc)) t)" for t :: counts
    using sorted_sort_key [of "\<lambda>kc. - int (snd kc)" t] by (simp add: sorted_map)
  then show ?thesis
    by (simp add: sorts_descending_def sort_values_def)
qed

lemma chronic_label_flags:
  assumes "h \<in> {0, 1}" "d \<in> {0, 1}" "a \<in> {0, 1}"
  shows "chronic_label (Some (h + d + a)) = (if h = 1 \<or> d = 1 \<or> a = 1 then ''Yes'' else ''No'')"
  using assms by (auto simp: chronic_label_def)

lemma clean_sample_row: "clean to_datetime [sample_row] = Inr [sample_cleaned]"
  by code_simp

subsection \<open>Claims about the callback\<close>

text \<open>
  Claim C3. With no neighbourhood selector and the full age range 0 to 100, the callback
  produces the six figures of the entire cleaned table.

  The age filter of line 181 is applied to every request, and the cleaning bounds ages
  only from below. A cleaned row of a patient of 115 years is outside the range 0 to
  100: it is in the figures of the whole table and not in the figures of the request.
\<close>

theorem full_span_counterexample:
  "clean to_datetime [sample_row\<lparr>Age := 115\<rparr>] = Inr [old_cleaned] \<and>
   pie_fig (fst (update_charts sort_values None (0, 100) (startup [old_cleaned]))) = [] \<and>
   pie_fig (fst (whole_table_figures sort_values (startup [old_cleaned]))) = [''No'']"
  by code_simp

text \<open>
  Claim C3, as the code has it. With no neighbourhood selector and the range 0 to 100,
  the callback produces the six figures of the cleaned rows whose age is at most 100;
  these are the figures of the entire cleaned table when no cleaned row has an age
  above 100.
\<close>

theorem full_span_figures:
  assumes "clean rd raw = Inr tbl" and "objects st (df st) = as_frame tbl"
  shows "fst (update_charts srt None (0, 100) st)
           = fst (whole_table_figures srt (with_table (filter (\<lambda>r. Age r \<le> 100) (as_frame tbl)) st)) \<and>
         ((\<forall>r \<in> set tbl. Age r \<le> 100) \<longrightarrow>
            fst (update_charts srt None (0, 100) st) = fst (whole_table_figures srt st))"
proof -
  have nonneg: "0 \<le> Age r" if "r \<in> set (as_frame tbl)" for r
    using that clean_age_nonneg [OF assms(1)] by (auto simp: as_frame_def)
  have "filter (selected None (0, 100)) (as_frame tbl) = filter (\<lambda>r. Age r \<le> 100) (as_frame tbl)"
    by (rule filter_cong) (auto simp: selected_def truthy_def nonneg)
  then have sub: "subset_rows None (0, 100) st = filter (\<lambda>r. Age r \<le> 100) (as_frame tbl)"
    by (simp add: subset_rows_eq assms(2))
  have first: "fst (update_charts srt None (0, 100) st)
           = fst (whole_table_figures srt (with_table (filter (\<lambda>r. Age r \<le> 100) (as_frame tbl)) st))"
    by (simp add: update_charts_figures whole_table_figures_eq sub with_table_def)
  have "fst (update_charts srt None (0, 100) st) = fst (whole_table_figures srt st)"
    if "\<forall>r \<in> set tbl. Age r \<le> 100"
  proof -
    from that have "filter (\<lambda>r. Age r \<le> 100) (as_frame tbl) = as_frame tbl"
      by (auto simp: as_frame_def)
    then show ?thesis
      by (simp add: update_charts_figures whole_table_figures_eq sub assms(2))
  qed
  with first show ?thesis by blast
qed

theorem full_span_figures_witness:
  "clean to_datetime [sample_row] = Inr [sample_cleaned] \<and>
   fst (update_charts sort_values None (0, 100) (startup [sample_cleaned]))
     = fst (whole_table_figures sort_values (startup [sample_cleaned])) \<and>
   pie_fig (fst (update_charts sort_values None (0, 100) (startup [sample_cleaned]))) = [''No'']"
proof -
  have a: "objects (startup [sample_cleaned]) (df (startup [sample_cleaned])) = as_frame [sample_cleaned]"
    by (simp add: startup_def)
  have b: "\<forall>r \<in> set [sample_cleaned]. Age r \<le> 100"
    by (simp add: sample_cleaned_def)
  have c: "pie_fig (fst (update_charts sort_values None (0, 100) (startup [sample_cleaned]))) = [''No'']"
    by code_simp
  show ?thesis
    using full_span_figures [OF clean_sample_row a, of sort_values] b c clean_sample_row by blast
qed

text \<open>
  Claim C6. For every neighbourhood selector and every age range, the row subset holds
  exactly the cleaned rows whose neighbourhood is the selector, when one is set, and
  whose age is within the bounds, both inclusive; the pie figure counts those rows by
  outcome.

  Line 177 tests the selector for truth, and the empty text is false in Python. When
  the selector is the empty text (the dropdown offers it if a neighbourhood of the
  table is empty after stripping), no row is removed for its neighbourhood: the subset
  holds all four rows of the example, none of which has the empty neighbourhood.
\<close>

theorem empty_selector_counterexample:
  "subset_rows (Some []) (0, 100) (startup ward_sample) = as_frame ward_sample \<and>
   filter (\<lambda>r. Neighbourhood r = [] \<and> 0 \<le> Age r \<and> Age r \<le> 100) (as_frame ward_sample) = []"
  by code_simp

text \<open>
  Claim C6, as the code has it. For every selector and every age range, the row subset
  holds exactly the rows of the table whose age is within the bounds, both inclusive,
  and whose neighbourhood is the selector when the selector is a text that is not empty
  (no selector and the empty text restrict nothing); the pie figure counts exactly
  those rows by outcome.
\<close>

theorem subset_and_outcome_counts:
  "subset_rows sel (lo, hi) st
     = filter (\<lambda>r. (case sel of None \<Rightarrow> True | Some s \<Rightarrow> s = [] \<or> Neighbourhood r = s)
                     \<and> lo \<le> Age r \<and> Age r \<le> hi) (objects st (df st)) \<and>
   (\<forall>v. count_list (pie_fig (fst (update_charts srt sel (lo, hi) st))) v
          = length (filter (\<lambda>r. No_show r = v) (subset_rows sel (lo, hi) st)))"
proof -
  have "selected sel (lo, hi)
          = (\<lambda>r. (case sel of None \<Rightarrow> True | Some s \<Rightarrow> s = [] \<or> Neighbourhood r = s)
                   \<and> lo \<le> Age r \<and> Age r \<le> hi)"
    by (auto simp: selected_def truthy_def fun_eq_iff split: option.splits)
  then have "subset_rows sel (lo, hi) st
     = filter (\<lambda>r. (case sel of None \<Rightarrow> True | Some s \<Rightarrow> s = [] \<or> Neighbourhood r = s)
                     \<and> lo \<le> Age r \<and> Age r \<le> hi) (objects st (df st))"
    by (simp add: subset_rows_eq)
  moreover have "count_list (map f rows) v = length (filter (\<lambda>r. f r = v) rows)"
    for f :: "charted \<Rightarrow> string" and rows v
    by (induction rows) auto
  then have "count_list (pie_fig (fst (update_charts srt sel (lo, hi) st))) v
          = length (filter (\<lambda>r. No_show r = v) (subset_rows sel (lo, hi) st))" for v
    by (simp add: update_charts_figures figures_of_def px_pie_def)
  ultimately show ?thesis by blast
qed

text \<open>The specification's example: \<^verbatim>\<open>JARDIM DA PENHA\<close> and the ages 18 to 65.\<close>

theorem subset_and_outcome_counts_witness:
  "subset_rows (Some ''JARDIM DA PENHA'') (18, 65) (startup ward_sample)
     = as_frame [sample_cleaned, sample_cleaned\<lparr>Age := 20, No_show := ''Yes'', No_show_flag := Some 1\<rparr>] \<and>
   count_list (pie_fig (fst (update_charts sort_values (Some ''JARDIM DA PENHA'') (18, 65) (startup ward_sample)))) ''No'' = 1 \<and>
   count_list (pie_fig (fst (update_charts sort_values (Some ''JARDIM DA PENHA'') (18, 65) (startup ward_sample)))) ''Yes'' = 1"
proof -
  have "subset_rows (Some ''JARDIM DA PENHA'') (18, 65) (startup ward_sample)
     = as_frame [sample_cleaned, sample_cleaned\<lparr>Age := 20, No_show := ''Yes'', No_show_flag := Some 1\<rparr>]"
    by code_simp
  moreover
  have "length (filter (\<lambda>r. No_show r = ''No'') (subset_rows (Some ''JARDIM DA PENHA'') (18, 65) (startup ward_sample))) = 1"
    by code_simp
  moreover
  have "length (filter (\<lambda>r. No_show r = ''Yes'') (subset_rows (Some ''JARDIM DA PENHA'') (18, 65) (startup ward_sample))) = 1"
    by code_simp
  ultimately show ?thesis
    using subset_and_outcome_counts [of "Some ''JARDIM DA PENHA''" 18 65 "startup ward_sample" sort_values]
    by simp
qed

text \<open>
  Claim C7. The neighbourhoods of the fourth figure are at most 20; they are the
  neighbourhoods with the highest row counts in the filtered subset, not in the whole
  table; and ties are broken consistently.

  For every sort that ranks the counts in descending order: the figure shows at most 20
  neighbourhoods, all of them of the subset, and all of the subset's when it has no more
  than 20; no neighbourhood of the subset that is left out has more rows in the subset
  than one that is shown; and the neighbourhoods shown are the first 20 of the one
  ranking of the subset's counts, so equal counts are taken in the order of that
  ranking. (The ranking is the library's: the source asks for no order of names.)
\<close>

theorem top_twenty_neighbourhoods:
  fixes sel :: "string option" and rng :: "int \<times> int" and st :: state
  assumes "sorts_descending srt"
  defines "col \<equiv> map Neighbourhood (subset_rows sel rng st)"
  defines "shown \<equiv> shown_values (nb_fig (fst (update_charts srt sel rng st)))"
  shows "card shown \<le> 20 \<and>
         card shown = min 20 (card (set col)) \<and>
         shown \<subseteq> set col \<and>
         (\<forall>n \<in> shown. \<forall>m \<in> set col - shown. count_list col m \<le> count_list col n) \<and>
         shown = fst ` set (take 20 (value_counts srt col))"
proof -
  have s: "shown = fst ` set (take 20 (value_counts srt col))"
    unfolding shown_def col_def by (rule nb_fig_shown [OF assms(1)])
  note t = top_of_ranking [OF assms(1), of 20 col, folded s]
  from t(2) have "card shown \<le> 20" by simp
  with t s show ?thesis by blast
qed

text \<open>Twenty-one neighbourhoods, one of them with two rows: twenty are shown, the one
  with two rows among them.\<close>

theorem top_twenty_neighbourhoods_witness:
  "sorts_descending sort_values \<and>
   shown_values (nb_fig (fst (update_charts sort_values None (0, 100) (startup wards))))
     = set (map (\<lambda>c. [c]) ''UABCDEFGHIJKLMNOPQRS'') \<and>
   card (shown_values (nb_fig (fst (update_charts sort_values None (0, 100) (startup wards))))) = 20 \<and>
   card (set (map Neighbourhood (subset_rows None (0, 100) (startup wards)))) = 21 \<and>
   card (shown_values (nb_fig (fst (update_charts sort_values None (0, 100) (startup wards)))))
     = min 20 (card (set (map Neighbourhood (subset_rows None (0, 100) (startup wards)))))"
proof -
  have "shown_values (nb_fig (fst (update_charts sort_values None (0, 100) (startup wards))))
          = set (map (\<lambda>c. [c]) ''UABCDEFGHIJKLMNOPQRS'')"
    by code_simp
  moreover
  have "card (shown_values (nb_fig (fst (update_charts sort_values None (0, 100) (startup wards))))) = 20"
    by code_simp
  moreover
  have "card (set (map Neighbourhood (subset_rows None (0, 100) (startup wards)))) = 21"
    by code_simp
  ultimately show ?thesis
    using top_twenty_neighbourhoods [OF sorts_descending_sort_values, of None "(0, 100)" "startup wards"]
      sorts_descending_sort_values
    by blast
qed

text \<open>
  Claim C8. The callback is pure. Once \<^verbatim>\<open>df\<close> refers to an object of the store, a
  request leaves the table as it was, and every other object that existed before it:
  the two columns of lines 214 and 215 are assigned to the new frame of the request.
  The variable \<^verbatim>\<open>df\<close> is not rebound. The figures depend on the selector, the age range
  and the rows of the table only, so the same inputs give the same six figures, in
  whatever state the requests before have left the store.
\<close>

theorem update_charts_leaves_table:
  assumes "df st < next_ref st"
  shows "objects (snd (update_charts srt sel rng st)) (df st) = objects st (df st) \<and>
         (\<forall>r < next_ref st. objects (snd (update_charts srt sel rng st)) r = objects st r) \<and>
         df (snd (update_charts srt sel rng st)) = df st \<and>
         df st < next_ref (snd (update_charts srt sel rng st)) \<and>
         (\<forall>st'. objects st' (df st') = objects st (df st) \<longrightarrow>
            fst (update_charts srt sel rng st') = fst (update_charts srt sel rng st))"
proof (intro conjI allI impI)
  show "objects (snd (update_charts srt sel rng st)) (df st) = objects st (df st)"
    using assms by (rule update_charts_frame)
  show "objects (snd (update_charts srt sel rng st)) r = objects st r" if "r < next_ref st" for r
    using that by (rule update_charts_frame)
  show "df (snd (update_charts srt sel rng st)) = df st"
    by (rule update_charts_df)
  show "df st < next_ref (snd (update_charts srt sel rng st))"
    using assms update_charts_next_ref [of st srt sel rng] by linarith
  show "fst (update_charts srt sel rng st') = fst (update_charts srt sel rng st)"
    if "objects st' (df st') = objects st (df st)" for st'
    by (simp only: update_charts_figures subset_rows_eq that)
qed

theorem update_charts_leaves_table_witness:
  "df (startup ward_sample) < next_ref (startup ward_sample) \<and>
   objects (snd (update_charts sort_values (Some ''JARDIM DA PENHA'') (18, 65) (startup ward_sample))) 0
     = as_frame ward_sample \<and>
   fst (update_charts sort_values (Some ''JARDIM DA PENHA'') (18, 65)
          (snd (update_charts sort_values (Some ''JARDIM DA PENHA'') (18, 65) (startup ward_sample))))
     = fst (update_charts sort_values (Some ''JARDIM DA PENHA'') (18, 65) (startup ward_sample))"
proof -
  let ?st = "startup ward_sample"
  let ?st' = "snd (update_charts sort_values (Some ''JARDIM DA PENHA'') (18, 65) ?st)"
  have a: "df ?st < next_ref ?st"
    by (simp add: startup_def)
  note t = update_charts_leaves_table [OF a, of sort_values "Some ''JARDIM DA PENHA''" "(18, 65)"]
  have d: "df ?st = 0" and o: "objects ?st 0 = as_frame ward_sample"
    by (simp_all add: startup_def)
  from t have t1: "objects ?st' (df ?st) = objects ?st (df ?st)"
    and t3: "df ?st' = df ?st"
    and t5: "\<forall>st'. objects st' (df st') = objects ?st (df ?st) \<longrightarrow>
            fst (update_charts sort_values (Some ''JARDIM DA PENHA'') (18, 65) st')
              = fst (update_charts sort_values (Some ''JARDIM DA PENHA'') (18, 65) ?st)"
    by blast+
  from t1 have b: "objects ?st' 0 = as_frame ward_sample"
    by (simp only: d o)
  from t1 t3 have "objects ?st' (df ?st') = objects ?st (df ?st)"
    by (simp only:)
  with t5 have c: "fst (update_charts sort_values (Some ''JARDIM DA PENHA'') (18, 65) ?st')
     = fst (update_charts sort_values (Some ''JARDIM DA PENHA'') (18, 65) ?st)"
    by blast
  from a b c show ?thesis by (intro conjI)
qed

text \<open>
  Claim C9. For every row of the filtered subset, the chronic-condition value of the
  fifth figure is the logical or of the three flags. The flags are boolean-valued, 0
  or 1. Line 214 stores their sum and line 215 the label \<^verbatim>\<open>Yes\<close> when the sum is positive,
  which is when at least one flag is 1, and \<^verbatim>\<open>No\<close> otherwise; the fifth figure is the
  histogram of that label.
\<close>

theorem chronic_condition_is_or:
  assumes "\<forall>r \<in> set (subset_rows sel rng st).
             Hipertension r \<in> {0, 1} \<and> Diabetes r \<in> {0, 1} \<and> Alcoholism r \<in> {0, 1}"
  shows "objects (snd (update_charts srt sel rng st)) (fst (filter_rows sel rng st))
           = map (\<lambda>r. r\<lparr>HasChronic := Some (Hipertension r + Diabetes r + Alcoholism r),
                          ChronicCondition :=
                            Some (if Hipertension r = 1 \<or> Diabetes r = 1 \<or> Alcoholism r = 1
                                  then ''Yes'' else ''No'')\<rparr>)
               (subset_rows sel rng st) \<and>
         chronic_fig (fst (update_charts srt sel rng st))
           = px_histogram ChronicCondition No_show
               (objects (snd (update_charts srt sel rng st)) (fst (filter_rows sel rng st)))"
proof -
  have obj: "objects (snd (update_charts srt sel rng st)) (fst (filter_rows sel rng st))
               = map add_chronic (subset_rows sel rng st)"
    by (simp add: update_charts_def filter_rows_eq build_figures_eq subset_rows_eq)
  have "map add_chronic (subset_rows sel rng st)
          = map (\<lambda>r. r\<lparr>HasChronic := Some (Hipertension r + Diabetes r + Alcoholism r),
                          ChronicCondition :=
                            Some (if Hipertension r = 1 \<or> Diabetes r = 1 \<or> Alcoholism r = 1
                                  then ''Yes'' else ''No'')\<rparr>)
               (subset_rows sel rng st)"
  proof (rule map_cong [OF refl])
    fix r assume "r \<in> set (subset_rows sel rng st)"
    with assms have "Hipertension r \<in> {0, 1}" "Diabetes r \<in> {0, 1}" "Alcoholism r \<in> {0, 1}"
      by blast+
    then show "add_chronic r
          = r\<lparr>HasChronic := Some (Hipertension r + Diabetes r + Alcoholism r),
                          ChronicCondition :=
                            Some (if Hipertension r = 1 \<or> Diabetes r = 1 \<or> Alcoholism r = 1
                                  then ''Yes'' else ''No'')\<rparr>"
      unfolding add_chronic_def by (simp only: chronic_label_flags)
  qed
  moreover have "chronic_fig (fst (update_charts srt sel rng st))
           = px_histogram ChronicCondition No_show (map add_chronic (subset_rows sel rng st))"
    by (simp add: update_charts_figures figures_of_def)
  ultimately show ?thesis
    by (simp add: obj)
qed

theorem chronic_condition_is_or_witness:
  "map ChronicCondition
     (objects (snd (update_charts sort_values None (0, 100)
                      (startup [sample_cleaned, sample_cleaned\<lparr>Hipertension := 0\<rparr>])))
        (fst (filter_rows None (0, 100) (startup [sample_cleaned, sample_cleaned\<lparr>Hipertension := 0\<rparr>]))))
     = [Some ''Yes'', Some ''No''] \<and>
   chronic_fig (fst (update_charts sort_values None (0, 100)
                   (startup [sample_cleaned, sample_cleaned\<lparr>Hipertension := 0\<rparr>])))
     = [(''No'', [Some ''Yes'', Some ''No''])]"
proof -
  let ?st = "startup [sample_cleaned, sample_cleaned\<lparr>Hipertension := 0\<rparr>]"
  have h: "\<forall>r \<in> set (subset_rows None (0, 100) ?st).
             Hipertension r \<in> {0, 1} \<and> Diabetes r \<in> {0, 1} \<and> Alcoholism r \<in> {0, 1}"
    by code_simp
  have a: "map ChronicCondition (objects (snd (update_charts sort_values None (0, 100) ?st))
        (fst (filter_rows None (0, 100) ?st))) = [Some ''Yes'', Some ''No'']"
    by code_simp
  have b: "chronic_fig (fst (update_charts sort_values None (0, 100) ?st))
     = [(''No'', [Some ''Yes'', Some ''No''])]"
    by code_simp
  show ?thesis
    using chronic_condition_is_or [OF h, of sort_values] a b by simp
qed

text \<open>
  Claim C10. A selector that is false in Python, \<^verbatim>\<open>None\<close> or the empty text, applies no
  neighbourhood restriction: the subset holds all rows of the table within the age
  range. So the rows of a neighbourhood whose name is empty cannot be selected by
  their name.
\<close>

theorem falsy_selector_no_restriction:
  assumes "sel = None \<or> sel = Some []"
  shows "subset_rows sel (lo, hi) st = filter (\<lambda>r. lo \<le> Age r \<and> Age r \<le> hi) (objects st (df st))"
proof -
  from assms have "\<not> truthy sel"
    by (auto simp: truthy_def)
  then show ?thesis
    by (simp add: subset_rows_eq selected_falsy)
qed

theorem falsy_selector_no_restriction_witness:
  "subset_rows (Some []) (0, 100) (startup [sample_cleaned\<lparr>Neighbourhood := []\<rparr>, sample_cleaned])
     = as_frame [sample_cleaned\<lparr>Neighbourhood := []\<rparr>, sample_cleaned] \<and>
   subset_rows None (0, 100) (startup [sample_cleaned\<lparr>Neighbourhood := []\<rparr>, sample_cleaned])
     = as_frame [sample_cleaned\<lparr>Neighbourhood := []\<rparr>, sample_cleaned]"
proof -
  have "filter (\<lambda>r. 0 \<le> Age r \<and> Age r \<le> 100)
          (objects (startup [sample_cleaned\<lparr>Neighbourhood := []\<rparr>, sample_cleaned])
             (df (startup [sample_cleaned\<lparr>Neighbourhood := []\<rparr>, sample_cleaned])))
        = as_frame [sample_cleaned\<lparr>Neighbourhood := []\<rparr>, sample_cleaned]"
    by code_simp
  then show ?thesis
    using falsy_selector_no_restriction [of "Some []" 0 100 "startup [sample_cleaned\<lparr>Neighbourhood := []\<rparr>, sample_cleaned]"]
      falsy_selector_no_restriction [of None 0 100 "startup [sample_cleaned\<lparr>Neighbourhood := []\<rparr>, sample_cleaned]"]
    by simp
qed

end
